theory Spec2Isabelle
  imports Main "HOL-Library.Char_ord" "HOL-Library.List_Lexorder" "HOL-Library.Product_Lexorder"
begin

section \<open>Data model\<close>

text \<open>
  The suggestion dropdown of the bang search box (\<^verbatim>\<open>src/components/BangDropdown.ts\<close>) and
  the selection handler of the search form (\<^verbatim>\<open>SearchForm.handleBangSelection\<close>).
\<close>

text \<open>
  Modelled from the spec: the declaration of \<^verbatim>\<open>BangItem\<close> (\<^verbatim>\<open>types/BangItem\<close>) is missing. The
  dropdown reads an item only through its field \<^verbatim>\<open>t\<close>, the trigger, a string; the other
  fields are those of the specification's \<^verbatim>\<open>BangDefinition\<close>. The field \<^verbatim>\<open>t\<close> is called
  \<open>bang_t\<close> here: a one-letter record field would capture every variable of that name.
\<close>

datatype Origin = Builtin | Custom

record BangItem =
  bang_t :: string
  serviceName :: string
  urlTemplate :: string
  weight :: int
  origin :: Origin

datatype PositionStyle = Absolute | Fixed

text \<open>
  \<^verbatim>\<open>BangDropdownOptions\<close> after the constructor has merged the defaults: \<open>maxItems\<close> is then
  always a number. The callback \<^verbatim>\<open>onSelectBang\<close> and the element \<^verbatim>\<open>appendTo\<close> are optional; the
  model records whether they were given. What the callback does with the text is the
  caller's business (see \<open>handleBangSelection\<close> below); its invocations are logged in the
  field \<open>emitted\<close> of the state.
\<close>

record BangDropdownOptions =
  maxItems :: nat
  onSelectBang :: bool
  appendTo :: bool
  positionStyle :: "PositionStyle option"

text \<open>What a container element shows: nothing, a message, or the rendered candidates.\<close>

datatype Content = Blank | Message string | Items "BangItem list"

text \<open>
  The two closures handed to \<^verbatim>\<open>setTimeout\<close>: the zero-delay tick of \<^verbatim>\<open>hide\<close> and the 10 ms
  re-check of the outside-click handler.
\<close>

datatype Timer = HideTick | OutsideRecheck

datatype error = TypeError

text \<open>
  The state: the fields of the class, followed by the part of the browser the class acts
  on. Elements are addresses (\<open>nat\<close>); \<open>attached\<close> is the set of elements that currently
  have a parent, \<open>innerHTML\<close> the content of each element, \<open>nextElement\<close> the next address
  \<^verbatim>\<open>createElement\<close> hands out. \<open>inputMounted\<close> says whether the input element has a
  \<^verbatim>\<open>.relative\<close> ancestor or a parent to append to. The three listener flags say whether the
  handler is registered on the document, on the input and on the window. \<open>timers\<close> are the
  pending timeouts. \<open>footerDisabled\<close> and \<open>keyboardNavigationActive\<close> are the module-level
  flags of \<^verbatim>\<open>dropdownUtils\<close> set through \<^verbatim>\<open>toggleFooterInteractions\<close> and
  \<^verbatim>\<open>setKeyboardNavigationActive\<close>.
\<close>

record BangDropdown =
  container :: "nat option"
  isVisible :: bool
  selectedIndex :: int
  options :: BangDropdownOptions
  filteredBangs :: "BangItem list"
  resizeHandler :: bool
  attached :: "nat set"
  innerHTML :: "nat \<Rightarrow> Content"
  nextElement :: nat
  inputMounted :: bool
  clickListener :: bool
  keydownListener :: bool
  resizeListener :: bool
  timers :: "Timer list"
  emitted :: "string list"
  footerDisabled :: bool
  keyboardNavigationActive :: bool

text \<open>The fields of the class proper, as one value.\<close>

definition controller ::
  "BangDropdown \<Rightarrow> nat option \<times> bool \<times> int \<times> BangDropdownOptions \<times> BangItem list \<times> bool" where
  "controller s =
     (container s, isVisible s, selectedIndex s, options s, filteredBangs s, resizeHandler s)"

section \<open>String primitives\<close>

text \<open>\<^verbatim>\<open>String.prototype.startsWith\<close>, \<^verbatim>\<open>includes\<close> and \<^verbatim>\<open>lastIndexOf\<close> on lists of characters.\<close>

fun str_startsWith :: "string \<Rightarrow> string \<Rightarrow> bool" where
  "str_startsWith s [] = True"
| "str_startsWith [] (p # ps) = False"
| "str_startsWith (c # cs) (p # ps) = (c = p \<and> str_startsWith cs ps)"

fun str_includes :: "string \<Rightarrow> string \<Rightarrow> bool" where
  "str_includes [] p = (p = [])"
| "str_includes (c # cs) p = (str_startsWith (c # cs) p \<or> str_includes cs p)"

text \<open>
  \<open>lastIndexOf_from s c i acc\<close> scans \<open>s\<close>, whose first character has index \<open>i\<close>, and
  keeps in \<open>acc\<close> the index of the latest occurrence seen; \<open>-1\<close> when there is none.
\<close>

fun lastIndexOf_from :: "string \<Rightarrow> char \<Rightarrow> nat \<Rightarrow> int \<Rightarrow> int" where
  "lastIndexOf_from [] c i acc = acc"
| "lastIndexOf_from (x # xs) c i acc =
     lastIndexOf_from xs c (Suc i) (if x = c then int i else acc)"

definition lastIndexOf :: "string \<Rightarrow> char \<Rightarrow> int" where
  "lastIndexOf s c = lastIndexOf_from s c 0 (- 1)"

text \<open>\<^verbatim>\<open>s.substring(0, n)\<close> for \<open>0 \<le> n\<close>.\<close>

definition substring0 :: "string \<Rightarrow> int \<Rightarrow> string" where
  "substring0 s n = take (nat n) s"

definition lowerChar :: "char \<Rightarrow> char" where
  "lowerChar c =
     (let n = (of_char c :: nat) in if 65 \<le> n \<and> n \<le> 90 then char_of (n + 32) else c)"

definition toLowerCase :: "string \<Rightarrow> string" where
  "toLowerCase s = map lowerChar s"

definition isWhitespace :: "char \<Rightarrow> bool" where
  "isWhitespace c = ((of_char c :: nat) \<in> {9, 10, 11, 12, 13, 32})"

section \<open>The match engine\<close>

text \<open>
  Modelled from the spec: \<^verbatim>\<open>filterAndSortBangs\<close> of \<^verbatim>\<open>utils/bangUtils\<close> is not among the
  sources. Section 4.2 of the specification gives its contract: comparison is
  case-insensitive; an exact trigger ranks first, then triggers that start with the partial
  (shorter first, then heavier, then alphabetical), then service names that contain it
  (heavier first, then alphabetical); the result is cut to \<open>maxItems\<close>; an empty partial and
  a partial with whitespace give the empty result.
\<close>

definition isExact :: "string \<Rightarrow> BangItem \<Rightarrow> bool" where
  "isExact q b = (toLowerCase (bang_t b) = toLowerCase q)"

definition isPrefixMatch :: "string \<Rightarrow> BangItem \<Rightarrow> bool" where
  "isPrefixMatch q b = str_startsWith (toLowerCase (bang_t b)) (toLowerCase q)"

definition isNameMatch :: "string \<Rightarrow> BangItem \<Rightarrow> bool" where
  "isNameMatch q b = str_includes (toLowerCase (serviceName b)) (toLowerCase q)"

definition matchesPartial :: "string \<Rightarrow> BangItem \<Rightarrow> bool" where
  "matchesPartial q b = (isExact q b \<or> isPrefixMatch q b \<or> isNameMatch q b)"

definition prefixKey :: "BangItem \<Rightarrow> nat \<times> int \<times> string" where
  "prefixKey b = (length (bang_t b), - weight b, toLowerCase (bang_t b))"

definition nameKey :: "BangItem \<Rightarrow> int \<times> string" where
  "nameKey b = (- weight b, toLowerCase (bang_t b))"

definition filterAndSortBangs :: "BangItem list \<Rightarrow> string \<Rightarrow> nat \<Rightarrow> BangItem list" where
  "filterAndSortBangs catalog q n =
     (if q = [] \<or> list_ex isWhitespace q then []
      else take n
        (filter (isExact q) catalog
         @ sort_key prefixKey
             (filter (\<lambda>b. \<not> isExact q b \<and> isPrefixMatch q b) catalog)
         @ sort_key nameKey
             (filter (\<lambda>b. \<not> isExact q b \<and> \<not> isPrefixMatch q b \<and> isNameMatch q b) catalog)))"

section \<open>The dropdown\<close>

text \<open>
  The constructor. Its arguments are the options as the caller passes them (\<open>maxItems\<close>
  optional, default 25) and whether the input element is mounted. The click and keydown
  handlers are always registered, the resize handler only for fixed positioning with an
  \<^verbatim>\<open>appendTo\<close> element.
\<close>

definition new_BangDropdown ::
  "nat option \<Rightarrow> bool \<Rightarrow> bool \<Rightarrow> PositionStyle option \<Rightarrow> bool \<Rightarrow> BangDropdown" where
  "new_BangDropdown mi cb ap ps mounted =
     \<lparr> container = None, isVisible = False, selectedIndex = - 1,
       options = \<lparr> maxItems = (case mi of None \<Rightarrow> 25 | Some n \<Rightarrow> n), onSelectBang = cb,
                   appendTo = ap, positionStyle = ps \<rparr>,
       filteredBangs = [],
       resizeHandler = (ps = Some Fixed \<and> ap),
       attached = {}, innerHTML = (\<lambda>_. Blank), nextElement = 0, inputMounted = mounted,
       clickListener = True, keydownListener = True,
       resizeListener = (ps = Some Fixed \<and> ap),
       timers = [], emitted = [], footerDisabled = False, keyboardNavigationActive = False \<rparr>"

text \<open>
  Modelled from the spec: the helpers \<^verbatim>\<open>removeFromDOM\<close> and \<^verbatim>\<open>showMessage\<close> of \<^verbatim>\<open>utils/dom\<close> and
  the two flag setters of \<^verbatim>\<open>utils/dropdownUtils\<close> are missing. \<^verbatim>\<open>removeFromDOM\<close> detaches the
  element it is given, so that a closed surface is destroyed, and accepts \<^verbatim>\<open>null\<close> (the tick
  of \<^verbatim>\<open>hide\<close> passes it). \<^verbatim>\<open>showMessage\<close> makes the message the content of the container: the
  prompt state of the specification shows a message, not a listing. Positioning and
  styling (\<^verbatim>\<open>positionDropdown\<close>, \<^verbatim>\<open>applyDropdownStyle\<close>) change no field of the state and are
  left out.
\<close>

definition removeFromDOM :: "nat option \<Rightarrow> BangDropdown \<Rightarrow> BangDropdown" where
  "removeFromDOM e s = (case e of None \<Rightarrow> s | Some c \<Rightarrow> s\<lparr>attached := attached s - {c}\<rparr>)"

definition showMessage :: "nat \<Rightarrow> string \<Rightarrow> BangDropdown \<Rightarrow> BangDropdown" where
  "showMessage c msg s = s\<lparr>innerHTML := (innerHTML s)(c := Message msg)\<rparr>"

definition toggleFooterInteractions :: "bool \<Rightarrow> BangDropdown \<Rightarrow> BangDropdown" where
  "toggleFooterInteractions b s = s\<lparr>footerDisabled := b\<rparr>"

definition setKeyboardNavigationActive :: "bool \<Rightarrow> BangDropdown \<Rightarrow> BangDropdown" where
  "setKeyboardNavigationActive b s = s\<lparr>keyboardNavigationActive := b\<rparr>"

definition setSelectedIndex :: "int \<Rightarrow> BangDropdown \<Rightarrow> BangDropdown" where
  "setSelectedIndex i s = s\<lparr>selectedIndex := i\<rparr>"

definition clear :: "BangDropdown \<Rightarrow> BangDropdown" where
  "clear s =
     (case container s of
        None \<Rightarrow> s
      | Some c \<Rightarrow> s\<lparr>innerHTML := (innerHTML s)(c := Blank)\<rparr>)\<lparr>selectedIndex := - 1\<rparr>"

definition renderItems :: "BangItem list \<Rightarrow> BangDropdown \<Rightarrow> BangDropdown" where
  "renderItems items s =
     (let s1 = clear s in
      case container s1 of
        None \<Rightarrow> s1
      | Some c \<Rightarrow>
          if items = [] then showMessage c ''No matching bangs found'' s1
          else s1\<lparr>innerHTML := (innerHTML s1)(c := Items items)\<rparr>)"

definition populate :: "BangDropdown \<Rightarrow> BangDropdown" where
  "populate s = (if container s \<noteq> None then renderItems (filteredBangs s) s else s)"

definition hide :: "BangDropdown \<Rightarrow> BangDropdown" where
  "hide s =
     (case container s of
        None \<Rightarrow> s
      | Some c \<Rightarrow>
          (toggleFooterInteractions False
             ((removeFromDOM (Some c) s)
                \<lparr>container := None, isVisible := False, selectedIndex := - 1\<rparr>))
            \<lparr>timers := timers s @ [HideTick]\<rparr>)"

text \<open>The body of the tick that \<open>hide\<close> schedules; it reads the container of the time it runs.\<close>

definition hideTick :: "BangDropdown \<Rightarrow> BangDropdown" where
  "hideTick s = (removeFromDOM (container s) s)\<lparr>container := None\<rparr>"

definition outsideRecheck :: "BangDropdown \<Rightarrow> BangDropdown" where
  "outsideRecheck s = (if isVisible s then hide s else s)"

definition ensureContainer :: "BangDropdown \<Rightarrow> BangDropdown" where
  "ensureContainer s =
     (case container s of
        Some c \<Rightarrow> s
      | None \<Rightarrow>
          (let c = nextElement s;
               s1 = s\<lparr>container := Some c, nextElement := Suc c,
                      innerHTML := (innerHTML s)(c := Blank)\<rparr>
           in if appendTo (options s) \<or> inputMounted s
              then s1\<lparr>attached := insert c (attached s1)\<rparr> else s1))"

text \<open>
  \<^verbatim>\<open>bang.t\<close> on the element read at an index: an index outside the array reads \<^verbatim>\<open>undefined\<close>,
  and the property access then throws.
\<close>

definition item_t :: "BangItem list \<Rightarrow> int \<Rightarrow> error + string" where
  "item_t xs i =
     (if 0 \<le> i \<and> i < int (length xs) then Inr (bang_t (xs ! nat i)) else Inl TypeError)"

definition selectBang :: "string \<Rightarrow> BangDropdown \<Rightarrow> BangDropdown" where
  "selectBang bangText s =
     hide (if onSelectBang (options s) then s\<lparr>emitted := emitted s @ [bangText]\<rparr> else s)"

definition selectTopOption :: "BangDropdown \<Rightarrow> error + BangDropdown" where
  "selectTopOption s =
     (if length (filteredBangs s) > 0 then
        (case item_t (filteredBangs s) 0 of
           Inl e \<Rightarrow> Inl e
         | Inr txt \<Rightarrow> Inr (selectBang txt s))
      else Inr s)"

definition selectCurrent :: "BangDropdown \<Rightarrow> error + BangDropdown" where
  "selectCurrent s0 =
     (let s = setKeyboardNavigationActive True s0 in
      if selectedIndex s \<ge> 0 \<and> selectedIndex s < int (length (filteredBangs s)) then
        (case item_t (filteredBangs s) (selectedIndex s) of
           Inl e \<Rightarrow> Inl e
         | Inr txt \<Rightarrow> Inr (selectBang txt s))
      else Inr (hide s))"

text \<open>
  \<open>show\<close>. The catalog \<open>cat\<close> stands for \<^verbatim>\<open>getCombinedBangs(loadSettings())\<close> and \<open>F\<close> for
  \<^verbatim>\<open>filterAndSortBangs\<close>; both are missing here and are parameters, so that what
  is proved of \<open>show\<close> holds whatever they compute.
\<close>

definition "show" ::
  "(BangItem list \<Rightarrow> string \<Rightarrow> nat \<Rightarrow> BangItem list) \<Rightarrow> BangItem list \<Rightarrow> string \<Rightarrow>
   BangDropdown \<Rightarrow> BangDropdown" where
  "show F cat query s0 =
     (let s1 = ensureContainer s0 in
      case container s1 of
        None \<Rightarrow> s1
      | Some c \<Rightarrow>
          if str_includes query '' '' then hide s1
          else
            (let s2 = s1\<lparr>isVisible := True\<rparr> in
             if query = [] then showMessage c ''Start typing to search for bangs...'' s2
             else
               (let s3 = populate (s2\<lparr>filteredBangs := F cat query (maxItems (options s2))\<rparr>)
                in if container s3 \<noteq> None then toggleFooterInteractions True s3 else s3)))"

definition setFilteredBangs :: "BangItem list \<Rightarrow> BangDropdown \<Rightarrow> BangDropdown" where
  "setFilteredBangs xs s0 =
     (let s = s0\<lparr>filteredBangs := xs\<rparr> in
      if isVisible s \<and> container s \<noteq> None then populate s else s)"

definition dispose :: "BangDropdown \<Rightarrow> BangDropdown" where
  "dispose s0 =
     (let s1 = s0\<lparr>clickListener := False\<rparr>;
          s2 = s1\<lparr>keydownListener := False\<rparr>;
          s3 = hide s2;
          s4 = (if resizeHandler s3 then s3\<lparr>resizeListener := False, resizeHandler := False\<rparr>
                else s3)
      in s4\<lparr>container := None, filteredBangs := []\<rparr>)"

subsection \<open>Handlers\<close>

datatype Key = Tab | Enter | Escape | ArrowUp | ArrowDown | OtherKey string

datatype Target = InsideElement nat | InsideInput | Elsewhere

definition documentClickHandler :: "Target \<Rightarrow> BangDropdown \<Rightarrow> BangDropdown" where
  "documentClickHandler tgt s =
     (if \<not> isVisible s then s
      else
        (let clickedOnDropdown = (case container s of None \<Rightarrow> False
                                  | Some c \<Rightarrow> tgt = InsideElement c);
             clickedOnInput = (tgt = InsideInput)
         in if \<not> clickedOnDropdown \<and> \<not> clickedOnInput
            then (let s1 = hide s in s1\<lparr>timers := timers s1 @ [OutsideRecheck]\<rparr>)
            else s))"

definition tabKeyHandler :: "Key \<Rightarrow> BangDropdown \<Rightarrow> error + BangDropdown" where
  "tabKeyHandler k s =
     (if k = Tab \<and> isVisible s \<and> length (filteredBangs s) > 0 then
        (case (if selectedIndex s \<ge> 0 then selectCurrent s else selectTopOption s) of
           Inl e \<Rightarrow> Inl e
         | Inr s1 \<Rightarrow> Inr (hide s1))
      else Inr s)"

text \<open>The candidates the surface shows: those rendered in the current container.\<close>

definition visibleItems :: "BangDropdown \<Rightarrow> BangItem list" where
  "visibleItems s =
     (case container s of
        None \<Rightarrow> []
      | Some c \<Rightarrow> (case innerHTML s c of Items xs \<Rightarrow> xs | _ \<Rightarrow> []))"

definition runTimer :: "Timer \<Rightarrow> BangDropdown \<Rightarrow> BangDropdown" where
  "runTimer tm s = (case tm of HideTick \<Rightarrow> hideTick s | OutsideRecheck \<Rightarrow> outsideRecheck s)"

definition hasItem :: "BangDropdown \<Rightarrow> nat \<Rightarrow> nat \<Rightarrow> bool" where
  "hasItem s c i = (case innerHTML s c of Items xs \<Rightarrow> i < length xs | _ \<Rightarrow> False)"

subsection \<open>The event loop\<close>

text \<open>
  Everything that can happen to a dropdown. \<open>Call\<close>s are the public methods, invoked by the
  owner. The other events are the browser running a callback: a listener (document click,
  keydown on the input, window resize, and the click, mouseenter and mouseleave listeners
  that \<^verbatim>\<open>renderItems\<close> puts on each rendered item) or a pending timer. A listener runs only
  while it is registered; an item listener only while its element is attached; a timer
  only while it is pending, and is then consumed.

  A worker response is a result computed off the interactive thread and handed in when it
  arrives. The dropdown subscribes to no worker itself; its entry for such results is
  \<^verbatim>\<open>setFilteredBangs\<close> ("allows external components (like workers) to pre-filter bangs"),
  so a worker response is that method run as a callback on the list delivered.
\<close>

text \<open>
  Modelled from the spec: \<^verbatim>\<open>HandleHovers\<close>, \<^verbatim>\<open>HandleMouseLeave\<close> and \<^verbatim>\<open>Navigate\<close> of
  \<^verbatim>\<open>utils/dropdownUtils\<close> are missing. They reach the dropdown through its renderer
  interface, that is through \<^verbatim>\<open>setSelectedIndex\<close>. Hovering a candidate selects it
  (specification, 4.5); the index chosen on leaving is carried by the event, and keyboard
  navigation is a call of \<open>SetSelectedIndex\<close>.
\<close>

datatype Call =
    Show "BangItem list" string
  | Hide
  | Dispose
  | SetFilteredBangs "BangItem list"
  | SetSelectedIndex int
  | SelectCurrent
  | SelectTopOption

datatype Event =
    Invoke Call
  | DocumentClick Target
  | KeyDown Key
  | WindowResize
  | TimerFires nat
  | ItemClick nat nat
  | ItemEnter nat nat
  | ItemLeave nat nat int
  | WorkerResponse "BangItem list"

fun isCallback :: "Event \<Rightarrow> bool" where
  "isCallback (Invoke c) = False"
| "isCallback e = True"

fun invoke ::
  "(BangItem list \<Rightarrow> string \<Rightarrow> nat \<Rightarrow> BangItem list) \<Rightarrow> Call \<Rightarrow> BangDropdown \<Rightarrow>
   error + BangDropdown" where
  "invoke F (Show cat q) s = Inr (show F cat q s)"
| "invoke F Hide s = Inr (hide s)"
| "invoke F Dispose s = Inr (dispose s)"
| "invoke F (SetFilteredBangs xs) s = Inr (setFilteredBangs xs s)"
| "invoke F (SetSelectedIndex i) s = Inr (setSelectedIndex i s)"
| "invoke F SelectCurrent s = selectCurrent s"
| "invoke F SelectTopOption s = selectTopOption s"

fun fire ::
  "(BangItem list \<Rightarrow> string \<Rightarrow> nat \<Rightarrow> BangItem list) \<Rightarrow> Event \<Rightarrow> BangDropdown \<Rightarrow>
   error + BangDropdown" where
  "fire F (Invoke c) s = invoke F c s"
| "fire F (DocumentClick tgt) s =
     Inr (if clickListener s then documentClickHandler tgt s else s)"
| "fire F (KeyDown k) s = (if keydownListener s then tabKeyHandler k s else Inr s)"
| "fire F WindowResize s = Inr s"
| "fire F (TimerFires k) s =
     Inr (if k < length (timers s)
          then runTimer (timers s ! k) (s\<lparr>timers := take k (timers s) @ drop (Suc k) (timers s)\<rparr>)
          else s)"
| "fire F (ItemClick c i) s =
     (if c \<in> attached s \<and> hasItem s c i then selectCurrent (s\<lparr>selectedIndex := int i\<rparr>)
      else Inr s)"
| "fire F (ItemEnter c i) s =
     Inr (if c \<in> attached s \<and> hasItem s c i \<and> container s = Some c
          then setSelectedIndex (int i) s else s)"
| "fire F (ItemLeave c i j) s =
     Inr (if c \<in> attached s \<and> hasItem s c i \<and> container s = Some c
          then setSelectedIndex j s else s)"
| "fire F (WorkerResponse xs) s = Inr (setFilteredBangs xs s)"

fun run ::
  "(BangItem list \<Rightarrow> string \<Rightarrow> nat \<Rightarrow> BangItem list) \<Rightarrow> Event list \<Rightarrow> BangDropdown \<Rightarrow>
   error + BangDropdown" where
  "run F [] s = Inr s"
| "run F (e # es) s = (case fire F e s of Inl err \<Rightarrow> Inl err | Inr s' \<Rightarrow> run F es s')"

fun isWorkerResponse :: "Event \<Rightarrow> bool" where
  "isWorkerResponse (WorkerResponse xs) = True"
| "isWorkerResponse e = False"

text \<open>The list the latest worker response among the events delivered, \<open>acc\<close> if none did.\<close>

fun delivered :: "Event list \<Rightarrow> BangItem list \<Rightarrow> BangItem list" where
  "delivered [] acc = acc"
| "delivered (WorkerResponse xs # es) acc = delivered es xs"
| "delivered (e # es) acc = delivered es acc"

inductive reachable ::
  "(BangItem list \<Rightarrow> string \<Rightarrow> nat \<Rightarrow> BangItem list) \<Rightarrow> BangDropdown \<Rightarrow> bool"
  for F :: "BangItem list \<Rightarrow> string \<Rightarrow> nat \<Rightarrow> BangItem list" where
  init: "reachable F (new_BangDropdown mi cb ap ps mounted)"
| step: "reachable F s \<Longrightarrow> fire F e s = Inr s' \<Longrightarrow> reachable F s'"

section \<open>The search form\<close>

text \<open>
  \<^verbatim>\<open>SearchForm.handleBangSelection\<close>, on the value of the input: the only field the rewrite
  decides. (Focus and the deferred cursor placement do not change the value.)
\<close>

definition handleBangSelection :: "string \<Rightarrow> string \<Rightarrow> string" where
  "handleBangSelection bangText inputValue =
     (let lastBangPos = lastIndexOf inputValue (CHR ''!'') in
      if lastBangPos \<ge> 0
      then substring0 inputValue (lastBangPos + 1) @ bangText @ '' ''
      else inputValue)"

section \<open>Derived notions\<close>

text \<open>
  The surface is closed when the dropdown holds no container and is not flagged visible:
  the state \<^verbatim>\<open>Closed\<close> of the specification's state machine.
\<close>

definition surfaceClosed :: "BangDropdown \<Rightarrow> bool" where
  "surfaceClosed s = (container s = None \<and> \<not> isVisible s)"

text \<open>
  What every state the event loop can reach satisfies: only the current container can be
  attached (every container is detached before the dropdown forgets it), and the resize
  listener is registered only while the handler is kept.
\<close>

definition wellFormed :: "BangDropdown \<Rightarrow> bool" where
  "wellFormed s =
     (attached s \<subseteq> set_option (container s) \<and> (resizeListener s \<longrightarrow> resizeHandler s))"

text \<open>A disposed dropdown: no container, nothing attached, no listener registered.\<close>

definition quiescent :: "BangDropdown \<Rightarrow> bool" where
  "quiescent s =
     (container s = None \<and> attached s = {} \<and>
      \<not> clickListener s \<and> \<not> keydownListener s \<and> \<not> resizeListener s)"

section \<open>Example data\<close>

definition exampleCatalog :: "BangItem list" where
  "exampleCatalog =
     [\<lparr>bang_t = ''w'', serviceName = ''Wikipedia'',
        urlTemplate = ''https://en.wikipedia.org/wiki/{q}'', weight = 9, origin = Builtin\<rparr>,
      \<lparr>bang_t = ''gi'', serviceName = ''Google Images'',
        urlTemplate = ''https://google.com/images?q={q}'', weight = 3, origin = Builtin\<rparr>,
      \<lparr>bang_t = ''g'', serviceName = ''Google'',
        urlTemplate = ''https://google.com/search?q={q}'', weight = 5, origin = Builtin\<rparr>]"

text \<open>
  A dropdown as the application builds it: default \<open>maxItems\<close>, a selection callback, no
  \<^verbatim>\<open>appendTo\<close>, on a mounted input.
\<close>

definition exampleNew :: BangDropdown where
  "exampleNew = new_BangDropdown None True False None True"

text \<open>The same after \<^verbatim>\<open>show("g")\<close>: open, listing \<^verbatim>\<open>g\<close> and \<^verbatim>\<open>gi\<close>.\<close>

definition exampleOpen :: BangDropdown where
  "exampleOpen = show filterAndSortBangs exampleCatalog ''g'' exampleNew"

text \<open>
  Opened, closed by a click outside, and opened again, with the timers of the closing still
  pending.
\<close>

definition exampleReopened :: BangDropdown where
  "exampleReopened =
     show filterAndSortBangs exampleCatalog ''g'' (documentClickHandler Elsewhere exampleOpen)"

text \<open>A partial trigger with a tab character (code 9) and no space.\<close>

definition tabQuery :: string where
  "tabQuery = [CHR ''g'', CHR 0x09, CHR ''o'']"

section \<open>Closing the surface\<close>

lemmas dom_defs = removeFromDOM_def toggleFooterInteractions_def setKeyboardNavigationActive_def
  showMessage_def setSelectedIndex_def

lemma hide_None: "container s = None \<Longrightarrow> hide s = s"
  by (simp add: hide_def)

lemma hide_Some:
  "container s = Some c \<Longrightarrow>
   hide s = s\<lparr>container := None, isVisible := False, selectedIndex := - 1,
             attached := attached s - {c}, footerDisabled := False,
             timers := timers s @ [HideTick]\<rparr>"
  by (simp add: hide_def dom_defs)

lemma hide_container [simp]: "container (hide s) = None"
  by (cases "container s") (simp_all add: hide_None hide_Some)

lemma hide_emitted [simp]: "emitted (hide s) = emitted s"
  by (cases "container s") (simp_all add: hide_None hide_Some)

lemma hide_filteredBangs [simp]: "filteredBangs (hide s) = filteredBangs s"
  by (cases "container s") (simp_all add: hide_None hide_Some)

lemma hide_options [simp]: "options (hide s) = options s"
  by (cases "container s") (simp_all add: hide_None hide_Some)

lemma hide_hide [simp]: "hide (hide s) = hide s"
  by (simp add: hide_None)

text \<open>
  Each way of closing an open surface (dismissal, selection, a click outside) goes
  through \<open>hide\<close>, which detaches the container and resets the visibility flag and the
  selection index. The candidate list is not among the fields it resets.
\<close>

lemma closing_resets_surface:
  assumes "isVisible s" and "container s = Some c"
  shows "surfaceClosed (hide s) \<and> selectedIndex (hide s) = - 1 \<and> c \<notin> attached (hide s)"
    and "surfaceClosed (selectBang txt s) \<and> selectedIndex (selectBang txt s) = - 1 \<and>
         c \<notin> attached (selectBang txt s)"
    and "surfaceClosed (documentClickHandler Elsewhere s) \<and>
         selectedIndex (documentClickHandler Elsewhere s) = - 1 \<and>
         c \<notin> attached (documentClickHandler Elsewhere s)"
  using assms
  by (simp_all add: surfaceClosed_def hide_Some selectBang_def documentClickHandler_def Let_def)

lemma closing_keeps_candidates:
  "filteredBangs (hide s) = filteredBangs s"
  "filteredBangs (selectBang txt s) = filteredBangs s"
  "filteredBangs (documentClickHandler tgt s) = filteredBangs s"
  by (simp_all add: selectBang_def documentClickHandler_def Let_def)

text \<open>
  C1. Closing is meant to leave no session state behind. It does for the visibility flag,
  the selection index and the container (\<open>closing_resets_surface\<close>), but the candidate
  list outlives \<open>hide\<close>: after \<^verbatim>\<open>show("g")\<close>, \<^verbatim>\<open>hide()\<close> and \<^verbatim>\<open>show("")\<close> the surface is open
  in its prompt state, lists nothing, and still holds the candidates of the closed
  session; Tab then emits the first of them.
\<close>

theorem candidates_survive_closing:
  "map_sum id (\<lambda>s. (isVisible s, map bang_t (filteredBangs s), visibleItems s, emitted s))
     (run filterAndSortBangs
        [Invoke (Show exampleCatalog ''g''), Invoke Hide, Invoke (Show exampleCatalog [])]
        exampleNew)
     = Inr (True, [''g'', ''gi''], [], []) \<and>
   map_sum id emitted
     (run filterAndSortBangs
        [Invoke (Show exampleCatalog ''g''), Invoke Hide, Invoke (Show exampleCatalog []),
         KeyDown Tab]
        exampleNew)
     = Inr [''g'']"
  by code_simp

section \<open>Selection by keyboard\<close>

text \<open>
  C4. On a visible surface (flagged visible, container present) with at least one candidate
  and no selection, Tab hands the trigger of the first candidate to the selection callback,
  when the owner configured one, and closes the surface. (\<^verbatim>\<open>String(bang.t)\<close> is the trigger
  itself; \<^verbatim>\<open>preventDefault\<close> touches no field of the state.)
\<close>

theorem tab_without_selection_emits_top:
  assumes "isVisible s" and "container s = Some c" and "filteredBangs s \<noteq> []"
    and "selectedIndex s < 0"
  shows "\<exists>s'. tabKeyHandler Tab s = Inr s' \<and>
           emitted s' = emitted s @ (if onSelectBang (options s)
                                    then [bang_t (filteredBangs s ! 0)] else []) \<and>
           surfaceClosed s' \<and> selectedIndex s' = - 1 \<and> c \<notin> attached s'"
proof -
  from assms(3) have t: "item_t (filteredBangs s) 0 = Inr (bang_t (filteredBangs s ! 0))"
    by (simp add: item_t_def)
  let ?s1 = "selectBang (bang_t (filteredBangs s ! 0)) s"
  from assms t have h: "tabKeyHandler Tab s = Inr (hide ?s1)"
    by (simp add: tabKeyHandler_def selectTopOption_def)
  have "hide ?s1 = ?s1" by (simp add: selectBang_def)
  moreover from assms(2) have "emitted ?s1 = emitted s @ (if onSelectBang (options s)
                                    then [bang_t (filteredBangs s ! 0)] else [])"
    and "surfaceClosed ?s1" and "selectedIndex ?s1 = - 1" and "c \<notin> attached ?s1"
    by (simp_all add: selectBang_def hide_Some surfaceClosed_def)
  ultimately show ?thesis using h by simp
qed

theorem tab_without_selection_witness:
  "isVisible exampleOpen \<and> container exampleOpen = Some 0 \<and> filteredBangs exampleOpen \<noteq> [] \<and>
   selectedIndex exampleOpen < 0 \<and>
   (\<exists>s'. tabKeyHandler Tab exampleOpen = Inr s' \<and> emitted s' = [''g''] \<and> surfaceClosed s' \<and>
         selectedIndex s' = - 1 \<and> 0 \<notin> attached s')"
proof -
  have h: "isVisible exampleOpen" "container exampleOpen = Some 0"
    "filteredBangs exampleOpen \<noteq> []" "selectedIndex exampleOpen < 0"
    by code_simp+
  have v: "emitted exampleOpen = []" "onSelectBang (options exampleOpen)"
    "bang_t (filteredBangs exampleOpen ! 0) = ''g''"
    by code_simp+
  from tab_without_selection_emits_top [OF h] v h show ?thesis by simp
qed

text \<open>
  C5. On a visible surface whose selection index points at a candidate, Tab and
  \<open>selectCurrent\<close> (the method the owner calls for Enter; the dropdown's own keydown handler
  reacts to Tab only) hand exactly the trigger of that candidate to the selection callback,
  when one is configured, and close the surface. Both end in the same state.
\<close>

theorem selection_emits_selected:
  assumes "isVisible s" and "container s = Some c" and "0 \<le> selectedIndex s"
    and "selectedIndex s < int (length (filteredBangs s))"
  shows "\<exists>s'. tabKeyHandler Tab s = Inr s' \<and> selectCurrent s = Inr s' \<and>
           emitted s' = emitted s @ (if onSelectBang (options s)
                          then [bang_t (filteredBangs s ! nat (selectedIndex s))] else []) \<and>
           surfaceClosed s' \<and> selectedIndex s' = - 1 \<and> c \<notin> attached s'"
proof -
  let ?txt = "bang_t (filteredBangs s ! nat (selectedIndex s))"
  let ?s0 = "setKeyboardNavigationActive True s"
  let ?s1 = "selectBang ?txt ?s0"
  from assms have t: "item_t (filteredBangs s) (selectedIndex s) = Inr ?txt"
    by (simp add: item_t_def)
  from assms t have c: "selectCurrent s = Inr ?s1"
    by (simp add: selectCurrent_def Let_def setKeyboardNavigationActive_def)
  from assms have ne: "length (filteredBangs s) > 0" by auto
  have hh: "hide ?s1 = ?s1" by (simp add: selectBang_def)
  from assms ne c hh have h: "tabKeyHandler Tab s = Inr ?s1"
    by (simp add: tabKeyHandler_def)
  from assms(2) have "emitted ?s1 = emitted s @ (if onSelectBang (options s) then [?txt] else [])"
    and "surfaceClosed ?s1" and "selectedIndex ?s1 = - 1" and "c \<notin> attached ?s1"
    by (simp_all add: selectBang_def hide_Some surfaceClosed_def setKeyboardNavigationActive_def)
  with h c show ?thesis by simp
qed

theorem selection_witness:
  "isVisible (setSelectedIndex 1 exampleOpen) \<and>
   container (setSelectedIndex 1 exampleOpen) = Some 0 \<and>
   0 \<le> selectedIndex (setSelectedIndex 1 exampleOpen) \<and>
   selectedIndex (setSelectedIndex 1 exampleOpen)
     < int (length (filteredBangs (setSelectedIndex 1 exampleOpen))) \<and>
   (\<exists>s'. tabKeyHandler Tab (setSelectedIndex 1 exampleOpen) = Inr s' \<and>
         selectCurrent (setSelectedIndex 1 exampleOpen) = Inr s' \<and>
         emitted s' = [''gi''] \<and> surfaceClosed s' \<and> selectedIndex s' = - 1 \<and>
         0 \<notin> attached s')"
proof -
  let ?s = "setSelectedIndex 1 exampleOpen"
  have h: "isVisible ?s" "container ?s = Some 0" "0 \<le> selectedIndex ?s"
    "selectedIndex ?s < int (length (filteredBangs ?s))"
    by code_simp+
  have v: "emitted ?s = []" "onSelectBang (options ?s)"
    "bang_t (filteredBangs ?s ! nat (selectedIndex ?s)) = ''gi''"
    by code_simp+
  from selection_emits_selected [OF h] v h show ?thesis by simp
qed

text \<open>
  C9. \<open>selectCurrent\<close> with a selection index outside the candidate list emits nothing and
  is exactly \<open>hide\<close> (after the keyboard flag is set): the container is dropped, and a
  surface that had one is closed. \<open>selectTopOption\<close> with no candidates changes nothing.
  Neither ever reads outside the list: in no state does either end in the \<open>TypeError\<close> of
  an out-of-range read.
\<close>

theorem selection_is_bounds_guarded:
  "(\<not> (0 \<le> selectedIndex s \<and> selectedIndex s < int (length (filteredBangs s))) \<longrightarrow>
      selectCurrent s = Inr (hide (setKeyboardNavigationActive True s)) \<and>
      emitted (hide (setKeyboardNavigationActive True s)) = emitted s \<and>
      container (hide (setKeyboardNavigationActive True s)) = None \<and>
      (container s \<noteq> None \<longrightarrow> surfaceClosed (hide (setKeyboardNavigationActive True s)))) \<and>
   (filteredBangs s = [] \<longrightarrow> selectTopOption s = Inr s) \<and>
   (\<exists>s'. selectCurrent s = Inr s') \<and> (\<exists>s'. selectTopOption s = Inr s')"
proof (intro conjI impI)
  assume a: "\<not> (0 \<le> selectedIndex s \<and> selectedIndex s < int (length (filteredBangs s)))"
  then show "selectCurrent s = Inr (hide (setKeyboardNavigationActive True s))"
    by (auto simp: selectCurrent_def Let_def setKeyboardNavigationActive_def)
  show "emitted (hide (setKeyboardNavigationActive True s)) = emitted s"
    by (simp add: setKeyboardNavigationActive_def)
  show "container (hide (setKeyboardNavigationActive True s)) = None" by simp
next
  assume "container s \<noteq> None"
  then obtain c where "container s = Some c" by auto
  then show "surfaceClosed (hide (setKeyboardNavigationActive True s))"
    by (simp add: surfaceClosed_def hide_Some setKeyboardNavigationActive_def)
next
  assume "filteredBangs s = []"
  then show "selectTopOption s = Inr s" by (simp add: selectTopOption_def)
next
  show "\<exists>s'. selectCurrent s = Inr s'"
    by (auto simp: selectCurrent_def Let_def item_t_def setKeyboardNavigationActive_def)
  show "\<exists>s'. selectTopOption s = Inr s'"
    by (auto simp: selectTopOption_def item_t_def)
qed

theorem selection_is_bounds_guarded_witness:
  "\<not> (0 \<le> selectedIndex (setSelectedIndex 7 exampleOpen) \<and>
      selectedIndex (setSelectedIndex 7 exampleOpen)
        < int (length (filteredBangs (setSelectedIndex 7 exampleOpen)))) \<and>
   container (setSelectedIndex 7 exampleOpen) \<noteq> None \<and>
   selectCurrent (setSelectedIndex 7 exampleOpen)
     = Inr (hide (setKeyboardNavigationActive True (setSelectedIndex 7 exampleOpen))) \<and>
   emitted (hide (setKeyboardNavigationActive True (setSelectedIndex 7 exampleOpen))) = [] \<and>
   surfaceClosed (hide (setKeyboardNavigationActive True (setSelectedIndex 7 exampleOpen))) \<and>
   filteredBangs exampleNew = [] \<and> selectTopOption exampleNew = Inr exampleNew"
proof -
  let ?s = "setSelectedIndex 7 exampleOpen"
  have h: "\<not> (0 \<le> selectedIndex ?s \<and> selectedIndex ?s < int (length (filteredBangs ?s)))"
    "container ?s \<noteq> None" "emitted ?s = []" "filteredBangs exampleNew = []"
    by code_simp+
  from selection_is_bounds_guarded [of ?s] selection_is_bounds_guarded [of exampleNew] h
  show ?thesis by simp
qed

section \<open>Opening the surface\<close>

lemma str_includes_space: "str_includes q '' '' = (CHR '' '' \<in> set q)"
  by (induction q) auto

lemma ensureContainer_Some: "\<exists>c. container (ensureContainer s) = Some c"
  by (cases "container s") (simp_all add: ensureContainer_def Let_def)

lemma ensureContainer_keeps [simp]:
  "filteredBangs (ensureContainer s) = filteredBangs s"
  "emitted (ensureContainer s) = emitted s"
  "options (ensureContainer s) = options s"
  "selectedIndex (ensureContainer s) = selectedIndex s"
  "isVisible (ensureContainer s) = isVisible s"
  by (cases "container s"; simp add: ensureContainer_def Let_def)+

lemma ensureContainer_attached:
  "attached (ensureContainer s) - set_option (container (ensureContainer s)) \<subseteq> attached s"
  by (cases "container s") (auto simp: ensureContainer_def Let_def)

text \<open>The three paths through \<open>show\<close>.\<close>

lemma show_space: "CHR '' '' \<in> set q \<Longrightarrow> show F cat q s = hide (ensureContainer s)"
  using ensureContainer_Some [of s]
  by (auto simp: show_def Let_def str_includes_space)

lemma show_empty:
  "container (ensureContainer s) = Some c \<Longrightarrow>
   show F cat [] s =
     showMessage c ''Start typing to search for bangs...'' ((ensureContainer s)\<lparr>isVisible := True\<rparr>)"
  by (simp add: show_def Let_def)

lemma show_query:
  "container (ensureContainer s) = Some c \<Longrightarrow> q \<noteq> [] \<Longrightarrow> CHR '' '' \<notin> set q \<Longrightarrow>
   show F cat q s =
     toggleFooterInteractions True
       (renderItems (F cat q (maxItems (options s)))
          ((ensureContainer s)\<lparr>isVisible := True,
              filteredBangs := F cat q (maxItems (options s))\<rparr>))"
  by (simp add: show_def Let_def str_includes_space populate_def renderItems_def clear_def
      showMessage_def toggleFooterInteractions_def)

lemma renderItems_keeps [simp]:
  "container (renderItems xs s) = container s"
  "filteredBangs (renderItems xs s) = filteredBangs s"
  "isVisible (renderItems xs s) = isVisible s"
  by (cases "container s"; simp add: renderItems_def clear_def Let_def showMessage_def)+

lemma visibleItems_renderItems:
  "visibleItems (renderItems xs s) = (if container s = None then [] else xs)"
  by (cases "container s"; cases xs)
     (simp_all add: visibleItems_def renderItems_def clear_def Let_def showMessage_def)

text \<open>Whatever the matcher returns, a query without a space opens the surface.\<close>

lemma show_opens_without_space:
  "CHR '' '' \<notin> set q \<Longrightarrow> isVisible (show F cat q s) \<and> container (show F cat q s) \<noteq> None"
proof -
  assume n: "CHR '' '' \<notin> set q"
  obtain c where c: "container (ensureContainer s) = Some c"
    using ensureContainer_Some by blast
  with n show ?thesis
    by (cases "q = []")
       (simp_all add: show_empty show_query showMessage_def toggleFooterInteractions_def)
qed

text \<open>
  C6, as the code has it. For every partial trigger that contains the space character,
  \<open>show\<close> does no matching: it is \<open>hide\<close> on the state with a container, whatever the
  matcher and the catalog are. The surface ends closed, nothing is listed, nothing stays
  attached that was not, no selection is emitted and the candidate list is the one from
  before. \<open>show\<close> has no failing path, so the call returns normally.
\<close>

theorem show_with_space_closes:
  assumes "CHR '' '' \<in> set q"
  shows "show F cat q s = hide (ensureContainer s) \<and> surfaceClosed (show F cat q s) \<and>
         selectedIndex (show F cat q s) = - 1 \<and> visibleItems (show F cat q s) = [] \<and>
         filteredBangs (show F cat q s) = filteredBangs s \<and>
         emitted (show F cat q s) = emitted s \<and> attached (show F cat q s) \<subseteq> attached s"
proof -
  obtain c where c: "container (ensureContainer s) = Some c"
    using ensureContainer_Some by blast
  have e: "show F cat q s = hide (ensureContainer s)" using assms by (rule show_space)
  have "attached (hide (ensureContainer s)) = attached (ensureContainer s) - {c}"
    using c by (simp add: hide_Some)
  with ensureContainer_attached [of s] c
  have "attached (hide (ensureContainer s)) \<subseteq> attached s" by simp
  with e c show ?thesis
    by (simp add: surfaceClosed_def hide_Some visibleItems_def)
qed

theorem show_with_space_witness:
  "CHR '' '' \<in> set ''g o'' \<and>
   surfaceClosed (show filterAndSortBangs exampleCatalog ''g o'' exampleOpen) \<and>
   selectedIndex (show filterAndSortBangs exampleCatalog ''g o'' exampleOpen) = - 1 \<and>
   visibleItems (show filterAndSortBangs exampleCatalog ''g o'' exampleOpen) = [] \<and>
   filteredBangs (show filterAndSortBangs exampleCatalog ''g o'' exampleOpen)
     = filteredBangs exampleOpen"
proof -
  have h: "CHR '' '' \<in> set ''g o''" by simp
  from show_with_space_closes [OF h, of filterAndSortBangs exampleCatalog exampleOpen] h
  show ?thesis by blast
qed

text \<open>
  C6, as stated for every whitespace character, fails: the test in \<open>show\<close> is for the
  space character alone. A partial trigger with a tab character is handed to the matcher,
  and the surface is left open, attached, showing the matcher's (empty) result.
\<close>

theorem show_with_tab_character_counterexample:
  "list_ex isWhitespace tabQuery \<and>
   isVisible (show filterAndSortBangs exampleCatalog tabQuery exampleNew) \<and>
   container (show filterAndSortBangs exampleCatalog tabQuery exampleNew) = Some 0 \<and>
   0 \<in> attached (show filterAndSortBangs exampleCatalog tabQuery exampleNew) \<and>
   innerHTML (show filterAndSortBangs exampleCatalog tabQuery exampleNew) 0
     = Message ''No matching bangs found''"
  by code_simp

text \<open>
  For the empty partial trigger \<open>show\<close> opens the surface with the prompt message as its
  content and runs no match, whatever the matcher and the catalog are: the candidate list
  is neither computed nor cleared.
\<close>

lemma show_empty_query_prompts:
  "\<exists>c. container (show F cat [] s) = Some c \<and>
       innerHTML (show F cat [] s) c = Message ''Start typing to search for bangs...'' \<and>
       isVisible (show F cat [] s) \<and> visibleItems (show F cat [] s) = [] \<and>
       filteredBangs (show F cat [] s) = filteredBangs s \<and>
       selectedIndex (show F cat [] s) = selectedIndex s"
proof -
  obtain c where c: "container (ensureContainer s) = Some c"
    using ensureContainer_Some by blast
  then show ?thesis
    by (simp add: show_empty showMessage_def visibleItems_def)
qed

text \<open>
  C7. The empty partial trigger is meant to give an empty result behind the prompt. \<open>show\<close>
  returns from its prompt branch before the candidate list is touched; the branch for a
  non-empty partial replaces the list and, through \<open>renderItems\<close> and \<open>clear\<close>, resets the
  selection. After \<^verbatim>\<open>show("g")\<close> and \<^verbatim>\<open>show("")\<close> the surface is in its prompt state with the
  candidates of \<^verbatim>\<open>g\<close> still in place, and Tab emits the first of them; with the second
  candidate selected before \<^verbatim>\<open>show("")\<close>, the selection survives too and Tab emits that one.
\<close>

theorem prompt_keeps_previous_candidates:
  "map_sum id (\<lambda>s. (isVisible s, map bang_t (filteredBangs s), selectedIndex s, emitted s))
     (run filterAndSortBangs
        [Invoke (Show exampleCatalog ''g''), Invoke (Show exampleCatalog [])]
        exampleNew)
     = Inr (True, [''g'', ''gi''], - 1, []) \<and>
   map_sum id emitted
     (run filterAndSortBangs
        [Invoke (Show exampleCatalog ''g''), Invoke (Show exampleCatalog []), KeyDown Tab]
        exampleNew)
     = Inr [''g''] \<and>
   map_sum id emitted
     (run filterAndSortBangs
        [Invoke (Show exampleCatalog ''g''), Invoke (SetSelectedIndex 1),
         Invoke (Show exampleCatalog []), KeyDown Tab]
        exampleNew)
     = Inr [''gi'']"
  by code_simp

subsection \<open>The listed result\<close>

lemma filterAndSortBangs_length: "length (filterAndSortBangs cat q n) \<le> n"
  by (simp add: filterAndSortBangs_def del: take_append)

lemma filterAndSortBangs_sound:
  assumes "b \<in> set (filterAndSortBangs cat q n)"
  shows "b \<in> set cat \<and> matchesPartial q b"
proof -
  let ?all = "filter (isExact q) cat
         @ sort_key prefixKey (filter (\<lambda>b. \<not> isExact q b \<and> isPrefixMatch q b) cat)
         @ sort_key nameKey
             (filter (\<lambda>b. \<not> isExact q b \<and> \<not> isPrefixMatch q b \<and> isNameMatch q b) cat)"
  from assms have "b \<in> set (take n ?all)"
    by (auto simp: filterAndSortBangs_def split: if_splits)
  then have "b \<in> set ?all" by (rule in_set_takeD)
  then show ?thesis by (auto simp: matchesPartial_def)
qed

lemma visibleItems_show:
  "visibleItems (show F cat q s) = [] \<or>
   visibleItems (show F cat q s) = F cat q (maxItems (options s))"
proof -
  obtain c where c: "container (ensureContainer s) = Some c"
    using ensureContainer_Some by blast
  show ?thesis
  proof (cases "CHR '' '' \<in> set q")
    case True
    then show ?thesis by (simp add: show_space visibleItems_def)
  next
    case False
    show ?thesis
    proof (cases "q = []")
      case True
      with c show ?thesis by (simp add: show_empty showMessage_def visibleItems_def)
    next
      case False
      have "visibleItems (toggleFooterInteractions True t) = visibleItems t" for t
        by (simp add: visibleItems_def toggleFooterInteractions_def split: option.splits)
      with c False \<open>CHR '' '' \<notin> set q\<close> show ?thesis
        by (simp add: show_query visibleItems_renderItems)
    qed
  qed
qed

text \<open>
  C8. With the match engine of the specification, what \<open>show\<close> lists for any partial
  trigger has at most \<open>maxItems\<close> entries, each an entry of the catalog whose trigger
  equals or starts with the partial or whose service name contains it (compared without
  regard to case). For a non-empty partial without a space the candidate list is the
  engine's result for the configured \<open>maxItems\<close>. The engine's result itself is capped and
  matching for every cap.
\<close>

theorem displayed_result_capped_and_matching:
  "length (visibleItems (show filterAndSortBangs cat q s)) \<le> maxItems (options s) \<and>
   (\<forall>b \<in> set (visibleItems (show filterAndSortBangs cat q s)).
       b \<in> set cat \<and> matchesPartial q b) \<and>
   (q \<noteq> [] \<and> CHR '' '' \<notin> set q \<longrightarrow>
      filteredBangs (show filterAndSortBangs cat q s)
        = filterAndSortBangs cat q (maxItems (options s))) \<and>
   length (filterAndSortBangs cat q n) \<le> n \<and>
   (\<forall>b \<in> set (filterAndSortBangs cat q n). b \<in> set cat \<and> matchesPartial q b)"
proof -
  obtain c where c: "container (ensureContainer s) = Some c"
    using ensureContainer_Some by blast
  have f: "q \<noteq> [] \<and> CHR '' '' \<notin> set q \<longrightarrow>
      filteredBangs (show filterAndSortBangs cat q s)
        = filterAndSortBangs cat q (maxItems (options s))"
    using c by (simp add: show_query toggleFooterInteractions_def)
  from visibleItems_show [of filterAndSortBangs cat q s]
  have "length (visibleItems (show filterAndSortBangs cat q s)) \<le> maxItems (options s)"
    and "\<forall>b \<in> set (visibleItems (show filterAndSortBangs cat q s)).
       b \<in> set cat \<and> matchesPartial q b"
    using filterAndSortBangs_length [of cat q "maxItems (options s)"]
      filterAndSortBangs_sound [of _ cat q "maxItems (options s)"]
    by auto
  with f show ?thesis
    using filterAndSortBangs_length [of cat q n] filterAndSortBangs_sound [of _ cat q n]
    by blast
qed

theorem displayed_result_witness:
  "''g'' \<noteq> [] \<and> CHR '' '' \<notin> set ''g'' \<and>
   map bang_t (filteredBangs (show filterAndSortBangs exampleCatalog ''g'' exampleNew))
     = [''g'', ''gi''] \<and>
   map bang_t (visibleItems (show filterAndSortBangs exampleCatalog ''g'' exampleNew))
     = [''g'', ''gi''] \<and>
   length (visibleItems (show filterAndSortBangs exampleCatalog ''g'' exampleNew)) \<le> 25 \<and>
   exampleCatalog ! 1
     \<in> set (visibleItems (show filterAndSortBangs exampleCatalog ''g'' exampleNew)) \<and>
   exampleCatalog ! 1 \<in> set exampleCatalog \<and> matchesPartial ''g'' (exampleCatalog ! 1) \<and>
   map bang_t (filterAndSortBangs exampleCatalog ''g'' 1) = [''g''] \<and>
   length (filterAndSortBangs exampleCatalog ''g'' 1) \<le> 1"
proof -
  have m: "maxItems (options exampleNew) = 25" by code_simp
  have v: "map bang_t (filterAndSortBangs exampleCatalog ''g'' 25) = [''g'', ''gi'']"
    "map bang_t (visibleItems (show filterAndSortBangs exampleCatalog ''g'' exampleNew))
       = [''g'', ''gi'']"
    "map bang_t (filterAndSortBangs exampleCatalog ''g'' 1) = [''g'']"
    by code_simp+
  have i: "exampleCatalog ! 1
     \<in> set (visibleItems (show filterAndSortBangs exampleCatalog ''g'' exampleNew))"
    by code_simp
  from displayed_result_capped_and_matching [of exampleCatalog "''g''" exampleNew 1] m v i
  show ?thesis by auto
qed

section \<open>Disposal\<close>

subsection \<open>Every reachable state is well formed\<close>

lemma wf_new: "wellFormed (new_BangDropdown mi cb ap ps mounted)"
  by (simp add: wellFormed_def new_BangDropdown_def)

lemma wf_hide: "wellFormed s \<Longrightarrow> wellFormed (hide s)"
  by (cases "container s") (auto simp: hide_None hide_Some wellFormed_def)

lemma wf_ensureContainer: "wellFormed s \<Longrightarrow> wellFormed (ensureContainer s)"
  by (cases "container s") (auto simp: ensureContainer_def Let_def wellFormed_def)

lemma wf_renderItems: "wellFormed s \<Longrightarrow> wellFormed (renderItems xs s)"
  by (cases "container s") (auto simp: renderItems_def clear_def Let_def wellFormed_def dom_defs)

lemma wf_populate: "wellFormed s \<Longrightarrow> wellFormed (populate s)"
  by (simp add: populate_def wf_renderItems)

lemma wf_update:
  "wellFormed s \<Longrightarrow> wellFormed (s\<lparr>isVisible := v\<rparr>)"
  "wellFormed s \<Longrightarrow> wellFormed (s\<lparr>filteredBangs := xs\<rparr>)"
  "wellFormed s \<Longrightarrow> wellFormed (s\<lparr>selectedIndex := i\<rparr>)"
  "wellFormed s \<Longrightarrow> wellFormed (s\<lparr>emitted := l\<rparr>)"
  "wellFormed s \<Longrightarrow> wellFormed (s\<lparr>timers := ts\<rparr>)"
  "wellFormed s \<Longrightarrow> wellFormed (s\<lparr>clickListener := v\<rparr>)"
  "wellFormed s \<Longrightarrow> wellFormed (s\<lparr>keydownListener := v\<rparr>)"
  "wellFormed s \<Longrightarrow> wellFormed (s\<lparr>footerDisabled := v\<rparr>)"
  "wellFormed s \<Longrightarrow> wellFormed (s\<lparr>keyboardNavigationActive := v\<rparr>)"
  "wellFormed s \<Longrightarrow> wellFormed (s\<lparr>innerHTML := h\<rparr>)"
  by (simp_all add: wellFormed_def)

lemma wf_show: "wellFormed s \<Longrightarrow> wellFormed (show F cat q s)"
proof -
  assume w: "wellFormed s"
  obtain c where c: "container (ensureContainer s) = Some c"
    using ensureContainer_Some by blast
  from w have e: "wellFormed (ensureContainer s)" by (rule wf_ensureContainer)
  show ?thesis
  proof (cases "CHR '' '' \<in> set q")
    case True
    with e show ?thesis by (simp add: show_space wf_hide)
  next
    case False
    then show ?thesis using c e
      by (cases "q = []")
         (simp_all add: show_empty show_query showMessage_def toggleFooterInteractions_def
            wf_update wf_renderItems)
  qed
qed

lemma wf_setFilteredBangs: "wellFormed s \<Longrightarrow> wellFormed (setFilteredBangs xs s)"
  by (simp add: setFilteredBangs_def Let_def wf_populate wf_update)

lemma wf_selectBang: "wellFormed s \<Longrightarrow> wellFormed (selectBang txt s)"
  by (simp add: selectBang_def wf_hide wf_update)

lemma wf_selectCurrent: "wellFormed s \<Longrightarrow> selectCurrent s = Inr s' \<Longrightarrow> wellFormed s'"
  by (auto simp: selectCurrent_def Let_def setKeyboardNavigationActive_def wf_selectBang wf_hide
      wf_update split: if_splits sum.splits)

lemma wf_selectTopOption: "wellFormed s \<Longrightarrow> selectTopOption s = Inr s' \<Longrightarrow> wellFormed s'"
  by (auto simp: selectTopOption_def wf_selectBang split: if_splits sum.splits)

lemma wf_dispose: "wellFormed s \<Longrightarrow> wellFormed (dispose s)"
  by (cases "container s") (auto simp: dispose_def Let_def hide_None hide_Some wellFormed_def)

lemma wf_tabKeyHandler: "wellFormed s \<Longrightarrow> tabKeyHandler k s = Inr s' \<Longrightarrow> wellFormed s'"
  by (auto simp: tabKeyHandler_def wf_hide split: if_splits sum.splits
      dest: wf_selectCurrent wf_selectTopOption)

lemma wf_documentClickHandler: "wellFormed s \<Longrightarrow> wellFormed (documentClickHandler tgt s)"
  by (simp add: documentClickHandler_def Let_def wf_hide wf_update)

lemma wf_hideTick: "wellFormed s \<Longrightarrow> wellFormed (hideTick s)"
  by (cases "container s") (auto simp: hideTick_def removeFromDOM_def wellFormed_def)

lemma wf_runTimer: "wellFormed s \<Longrightarrow> wellFormed (runTimer tm s)"
  by (cases tm) (simp_all add: runTimer_def outsideRecheck_def wf_hide wf_hideTick)

lemma wf_invoke: "wellFormed s \<Longrightarrow> invoke F c s = Inr s' \<Longrightarrow> wellFormed s'"
  by (cases c)
     (auto simp: wf_show wf_hide wf_dispose wf_setFilteredBangs setSelectedIndex_def wf_update
        dest: wf_selectCurrent wf_selectTopOption)

lemma wf_fire: "wellFormed s \<Longrightarrow> fire F e s = Inr s' \<Longrightarrow> wellFormed s'"
proof (cases e)
  case (ItemClick c i)
  assume w: "wellFormed s" and f: "fire F e s = Inr s'"
  from w have "wellFormed (s\<lparr>selectedIndex := int i\<rparr>)" by (rule wf_update)
  with f ItemClick w show ?thesis
    by (cases "c \<in> attached s \<and> hasItem s c i") (auto dest: wf_selectCurrent)
qed (auto simp: wf_documentClickHandler wf_runTimer wf_update setSelectedIndex_def
       wf_setFilteredBangs split: if_splits dest: wf_invoke wf_tabKeyHandler)

lemma reachable_wellFormed: "reachable F s \<Longrightarrow> wellFormed s"
  by (induction rule: reachable.induct) (auto simp: wf_new dest: wf_fire)

lemma reachable_run: "reachable F s \<Longrightarrow> run F es s = Inr s' \<Longrightarrow> reachable F s'"
  by (induction es arbitrary: s) (auto split: sum.splits intro: reachable.step)

subsection \<open>Callbacks after disposal\<close>

lemma dispose_quiescent: "wellFormed s \<Longrightarrow> quiescent (dispose s)"
  by (cases "container s")
     (auto simp: dispose_def Let_def hide_None hide_Some wellFormed_def quiescent_def)

lemma quiescent_runTimer:
  "quiescent s \<Longrightarrow>
   quiescent (runTimer tm (s\<lparr>timers := ts\<rparr>)) \<and>
   controller (runTimer tm (s\<lparr>timers := ts\<rparr>)) = controller s \<and>
   emitted (runTimer tm (s\<lparr>timers := ts\<rparr>)) = emitted s"
  by (cases tm)
     (simp_all add: runTimer_def hideTick_def outsideRecheck_def removeFromDOM_def hide_None
        quiescent_def controller_def)

lemma controller_filteredBangs_same:
  "controller (s\<lparr>filteredBangs := filteredBangs s\<rparr>) = controller s"
  by (simp add: controller_def)

lemma controller_filteredBangs_cong:
  "controller s1 = controller (s\<lparr>filteredBangs := a\<rparr>) \<Longrightarrow>
   controller (s1\<lparr>filteredBangs := b\<rparr>) = controller (s\<lparr>filteredBangs := b\<rparr>)"
  by (simp add: controller_def)

lemma quiescent_fire:
  assumes "quiescent s" and "isCallback e"
  shows "\<exists>s'. fire F e s = Inr s' \<and> quiescent s' \<and>
              controller s' = controller (s\<lparr>filteredBangs := delivered [e] (filteredBangs s)\<rparr>) \<and>
              emitted s' = emitted s"
proof (cases e)
  case (Invoke c)
  with assms(2) show ?thesis by simp
next
  case (TimerFires k)
  with quiescent_runTimer [OF assms(1)] assms(1) show ?thesis
    by (simp add: controller_filteredBangs_same)
next
  case (WorkerResponse xs)
  with assms(1) show ?thesis
    by (simp add: setFilteredBangs_def Let_def quiescent_def)
qed (use assms(1) in \<open>simp_all add: quiescent_def controller_filteredBangs_same\<close>)

lemma delivered_Cons: "delivered (e # es) acc = delivered es (delivered [e] acc)"
  by (cases e) simp_all

lemma delivered_none: "\<not> list_ex isWorkerResponse es \<Longrightarrow> delivered es acc = acc"
  by (induction es acc rule: delivered.induct) simp_all

lemma quiescent_run:
  "quiescent s \<Longrightarrow> list_all isCallback es \<Longrightarrow>
   \<exists>s'. run F es s = Inr s' \<and> quiescent s' \<and>
        controller s' = controller (s\<lparr>filteredBangs := delivered es (filteredBangs s)\<rparr>) \<and>
        emitted s' = emitted s"
proof (induction es arbitrary: s)
  case Nil
  then show ?case by (simp add: controller_filteredBangs_same)
next
  case (Cons e es)
  from Cons.prems obtain s1 where 1: "fire F e s = Inr s1" "quiescent s1"
    "controller s1 = controller (s\<lparr>filteredBangs := delivered [e] (filteredBangs s)\<rparr>)"
    "emitted s1 = emitted s"
    using quiescent_fire [of s e F] by auto
  from 1(3) have fb: "filteredBangs s1 = delivered [e] (filteredBangs s)"
    by (simp add: controller_def)
  from Cons.IH [OF 1(2)] Cons.prems(2) obtain s' where 2:
    "run F es s1 = Inr s'" "quiescent s'"
    "controller s' = controller (s1\<lparr>filteredBangs := delivered es (filteredBangs s1)\<rparr>)"
    "emitted s' = emitted s1"
    by auto
  from 1(3) have "controller (s1\<lparr>filteredBangs := delivered es (filteredBangs s1)\<rparr>)
      = controller (s\<lparr>filteredBangs := delivered es (filteredBangs s1)\<rparr>)"
    by (rule controller_filteredBangs_cong)
  with 1 2 fb show ?case by (simp add: delivered_Cons [of e es])
qed

text \<open>
  C2, as the code has it. Take any state the dropdown can be in and dispose it, and let the
  browser then run callbacks in any order, the surface not being shown again in between.
  None fails. The document, input and window listeners are removed. The listeners on
  rendered items are never removed, but they cannot fire: nothing is attached any more. The
  timers scheduled before or during the disposal do fire and change nothing: they find no
  container and a \<open>hide\<close> that has nothing to do. No selection is emitted. A worker
  response, however, is not ignored: it replaces the candidate list, and that is all it
  changes. So afterwards the fields of the class are those \<open>dispose\<close> left, but for the
  candidate list, which is the last one delivered; with no worker response among the
  callbacks every field is as \<open>dispose\<close> left it.
\<close>

theorem callbacks_after_dispose:
  assumes "reachable F s" and "list_all isCallback es"
  shows "\<exists>s'. run F es (dispose s) = Inr s' \<and>
           controller s' = controller ((dispose s)\<lparr>filteredBangs := delivered es []\<rparr>) \<and>
           (\<not> list_ex isWorkerResponse es \<longrightarrow> controller s' = controller (dispose s)) \<and>
           emitted s' = emitted (dispose s) \<and> attached s' = {} \<and>
           \<not> clickListener s' \<and> \<not> keydownListener s' \<and> \<not> resizeListener s'"
proof -
  from assms(1) have q: "quiescent (dispose s)"
    by (simp add: reachable_wellFormed dispose_quiescent)
  have e: "filteredBangs (dispose s) = []" by (simp add: dispose_def Let_def)
  from quiescent_run [OF q assms(2), of F] e obtain s' where 1:
    "run F es (dispose s) = Inr s'" "quiescent s'"
    "controller s' = controller ((dispose s)\<lparr>filteredBangs := delivered es []\<rparr>)"
    "emitted s' = emitted (dispose s)"
    by auto
  have "\<not> list_ex isWorkerResponse es \<longrightarrow> controller s' = controller (dispose s)"
  proof
    assume "\<not> list_ex isWorkerResponse es"
    then have "delivered es [] = []" by (rule delivered_none)
    with 1(3) e controller_filteredBangs_same [of "dispose s"] show
      "controller s' = controller (dispose s)" by simp
  qed
  with 1 show ?thesis by (auto simp: quiescent_def)
qed

theorem callbacks_after_dispose_witness:
  "reachable filterAndSortBangs exampleReopened \<and>
   list_all isCallback
     [TimerFires 1, TimerFires 0, DocumentClick Elsewhere, KeyDown Tab, ItemClick 1 0,
      TimerFires 0, WindowResize] \<and>
   list_all isCallback [TimerFires 0, WorkerResponse exampleCatalog, KeyDown Tab] \<and>
   timers (dispose exampleReopened) = [HideTick, OutsideRecheck, HideTick] \<and>
   (\<exists>s'. run filterAndSortBangs
           [TimerFires 1, TimerFires 0, DocumentClick Elsewhere, KeyDown Tab, ItemClick 1 0,
            TimerFires 0, WindowResize] (dispose exampleReopened) = Inr s' \<and>
         controller s' = controller (dispose exampleReopened) \<and>
         emitted s' = emitted (dispose exampleReopened) \<and> attached s' = {} \<and>
         \<not> clickListener s' \<and> \<not> keydownListener s' \<and> \<not> resizeListener s') \<and>
   (\<exists>s'. run filterAndSortBangs
           [TimerFires 0, WorkerResponse exampleCatalog, KeyDown Tab]
           (dispose exampleReopened) = Inr s' \<and>
         controller s'
           = controller ((dispose exampleReopened)\<lparr>filteredBangs := exampleCatalog\<rparr>) \<and>
         emitted s' = emitted (dispose exampleReopened) \<and> attached s' = {})"
proof -
  have "reachable filterAndSortBangs exampleNew"
    unfolding exampleNew_def by (rule reachable.init)
  moreover have "run filterAndSortBangs
      [Invoke (Show exampleCatalog ''g''), DocumentClick Elsewhere,
       Invoke (Show exampleCatalog ''g'')] exampleNew = Inr exampleReopened"
  proof -
    have "clickListener exampleOpen" by code_simp
    then show ?thesis by (simp add: exampleReopened_def exampleOpen_def)
  qed
  ultimately have r: "reachable filterAndSortBangs exampleReopened" by (rule reachable_run)
  have c: "list_all isCallback
     [TimerFires 1, TimerFires 0, DocumentClick Elsewhere, KeyDown Tab, ItemClick 1 0,
      TimerFires 0, WindowResize]" by simp
  have c': "list_all isCallback [TimerFires 0, WorkerResponse exampleCatalog, KeyDown Tab]"
    by simp
  have t: "timers (dispose exampleReopened) = [HideTick, OutsideRecheck, HideTick]"
    by code_simp
  have d: "\<not> list_ex isWorkerResponse
     [TimerFires 1, TimerFires 0, DocumentClick Elsewhere, KeyDown Tab, ItemClick 1 0,
      TimerFires 0, WindowResize]" by simp
  have d': "delivered [TimerFires 0, WorkerResponse exampleCatalog, KeyDown Tab] []
      = exampleCatalog" by simp
  from callbacks_after_dispose [OF r c] d
  have A: "\<exists>s'. run filterAndSortBangs
           [TimerFires 1, TimerFires 0, DocumentClick Elsewhere, KeyDown Tab, ItemClick 1 0,
            TimerFires 0, WindowResize] (dispose exampleReopened) = Inr s' \<and>
         controller s' = controller (dispose exampleReopened) \<and>
         emitted s' = emitted (dispose exampleReopened) \<and> attached s' = {} \<and>
         \<not> clickListener s' \<and> \<not> keydownListener s' \<and> \<not> resizeListener s'"
    by blast
  from callbacks_after_dispose [OF r c']
  have B: "\<exists>s'. run filterAndSortBangs
           [TimerFires 0, WorkerResponse exampleCatalog, KeyDown Tab]
           (dispose exampleReopened) = Inr s' \<and>
         controller s'
           = controller ((dispose exampleReopened)\<lparr>filteredBangs := exampleCatalog\<rparr>) \<and>
         emitted s' = emitted (dispose exampleReopened) \<and> attached s' = {}"
    unfolding d' by blast
  from r c c' t A B show ?thesis by (intro conjI)
qed

text \<open>
  C2, as stated for worker responses too, fails: \<^verbatim>\<open>setFilteredBangs\<close>, the entry its comment
  names for workers, stores what it is given whether or not the dropdown has been
  disposed. A result that arrives after \<open>dispose\<close> has emptied the candidate list fills it
  again.
\<close>

theorem late_worker_response_counterexample:
  "filteredBangs (dispose exampleOpen) = [] \<and>
   map_sum id (\<lambda>s. map bang_t (filteredBangs s))
     (fire filterAndSortBangs (WorkerResponse exampleCatalog) (dispose exampleOpen))
     = Inr [''w'', ''gi'', ''g'']"
  by code_simp

subsection \<open>Disposing twice\<close>

text \<open>
  A second \<open>dispose\<close> changes nothing, and a dropdown that holds its container or is not
  flagged visible is closed and empty once disposed.
\<close>

lemma dispose_idem: "dispose (dispose s) = dispose s"
  by (cases "container s") (simp_all add: dispose_def Let_def hide_None hide_Some)

lemma dispose_closed:
  "container s \<noteq> None \<or> \<not> isVisible s \<Longrightarrow>
   surfaceClosed (dispose s) \<and> filteredBangs (dispose s) = []"
  by (cases "container s") (simp_all add: dispose_def Let_def hide_None hide_Some surfaceClosed_def)

lemma dispose_unregisters:
  "wellFormed s \<Longrightarrow>
   \<not> clickListener (dispose s) \<and> \<not> keydownListener (dispose s) \<and> \<not> resizeListener (dispose s)"
  using dispose_quiescent [of s] by (simp add: quiescent_def)

text \<open>
  C3. Disposing twice is meant to leave the dropdown closed: no container, not visible, no
  candidates. The visibility flag is reset only by \<open>hide\<close>, and only while a container is
  held. The tick of an earlier \<open>hide\<close> drops whatever container is current when it runs:
  after \<^verbatim>\<open>show("g")\<close>, \<^verbatim>\<open>hide()\<close>, \<^verbatim>\<open>show("g")\<close> and the tick of that \<^verbatim>\<open>hide()\<close> the dropdown is
  flagged visible without a container, and two calls of \<^verbatim>\<open>dispose()\<close> leave the flag set.
\<close>

theorem dispose_twice_leaves_visible_flag:
  "map_sum id (\<lambda>s. (container s, isVisible s, filteredBangs s))
     (run filterAndSortBangs
        [Invoke (Show exampleCatalog ''g''), Invoke Hide, Invoke (Show exampleCatalog ''g''),
         TimerFires 0, Invoke Dispose, Invoke Dispose]
        exampleNew)
     = Inr (None, True, [])"
  by code_simp

section \<open>The selection handler rewrites the input after its last bang\<close>

lemma lastIndexOf_from_absent: "c \<notin> set xs \<Longrightarrow> lastIndexOf_from xs c i acc = acc"
  by (induction xs arbitrary: i acc) auto

lemma lastIndexOf_from_last:
  "c \<notin> set suf \<Longrightarrow> lastIndexOf_from (pre @ c # suf) c i acc = int (i + length pre)"
  by (induction pre arbitrary: i acc) (auto simp: lastIndexOf_from_absent)

lemma lastIndexOf_absent: "c \<notin> set s \<Longrightarrow> lastIndexOf s c = - 1"
  by (simp add: lastIndexOf_def lastIndexOf_from_absent)

lemma lastIndexOf_last: "c \<notin> set suf \<Longrightarrow> lastIndexOf (pre @ c # suf) c = int (length pre)"
  by (simp add: lastIndexOf_def lastIndexOf_from_last)

text \<open>Every text that contains the character splits at its last occurrence.\<close>

lemma last_occurrence_split:
  "c \<in> set s \<Longrightarrow> \<exists>pre suf. s = pre @ c # suf \<and> c \<notin> set suf"
  by (rule split_list_last)

text \<open>
  C10. When a selection with trigger text \<open>txt\<close> reaches \<open>handleBangSelection\<close>, an input
  value without \<open>!\<close> is left as it is; an input value \<open>pre ! suf\<close> whose \<open>suf\<close> has no further
  \<open>!\<close> (so this \<open>!\<close> is the last one) becomes \<open>pre\<close>, the \<open>!\<close>, \<open>txt\<close> and one space.
\<close>

theorem handleBangSelection_rewrites_after_last_bang:
  "(CHR ''!'' \<notin> set v \<longrightarrow> handleBangSelection txt v = v) \<and>
   (v = pre @ CHR ''!'' # suf \<and> CHR ''!'' \<notin> set suf \<longrightarrow>
      handleBangSelection txt v = pre @ ''!'' @ txt @ '' '')"
proof (intro conjI impI)
  assume "CHR ''!'' \<notin> set v"
  then show "handleBangSelection txt v = v"
    by (simp add: handleBangSelection_def lastIndexOf_absent)
next
  assume a: "v = pre @ CHR ''!'' # suf \<and> CHR ''!'' \<notin> set suf"
  then have "lastIndexOf v (CHR ''!'') = int (length pre)"
    by (simp add: lastIndexOf_last)
  with a show "handleBangSelection txt v = pre @ ''!'' @ txt @ '' ''"
    by (simp add: handleBangSelection_def substring0_def nat_add_distrib)
qed

theorem handleBangSelection_witness:
  "CHR ''!'' \<notin> set ''cats'' \<and> handleBangSelection ''gh'' ''cats'' = ''cats'' \<and>
   ''a!b !g'' = ''a!b '' @ CHR ''!'' # ''g'' \<and> CHR ''!'' \<notin> set ''g'' \<and>
   handleBangSelection ''gh'' ''a!b !g'' = ''a!b !gh ''"
  using handleBangSelection_rewrites_after_last_bang [of "''cats''" "''gh''" "[]" "[]"]
        handleBangSelection_rewrites_after_last_bang [of "''a!b !g''" "''gh''" "''a!b ''" "''g''"]
  by simp

end
